theory Spec2Isabelle
  imports
    Main
    "HOL-Library.Multiset"
    "HOL-Library.Sublist"
    "HOL-Library.Char_ord"
    "HOL-Library.List_Lexorder"
    "HOL-Library.Product_Lexorder"
begin

section \<open>Strings and the standard-library string functions\<close>

text \<open>
  A Go string is a sequence of bytes, and \<open>a < b\<close> on Go strings is the bytewise
  lexicographic order: \<^typ>\<open>string\<close> with the order of \<open>Char_ord\<close> and
  \<open>List_Lexorder\<close>.

  \<open>strings.ToLower\<close> and \<open>strings.EqualFold\<close> belong to Go's standard library. On
  bytes below 128 they act as written here (\<open>A\<close>..\<open>Z\<close> go to \<open>a\<close>..\<open>z\<close>, every
  other byte stays); bytes from 128 on are left alone here, where the library consults
  its Unicode tables.
\<close>

definition toLowerByte :: "char \<Rightarrow> char" where
  "toLowerByte c =
     (let n = (of_char c :: nat) in if 65 \<le> n \<and> n \<le> 90 then char_of (n + 32) else c)"

definition toLower :: "string \<Rightarrow> string" where
  "toLower s = map toLowerByte s"

text \<open>
  \<open>strings.EqualFold\<close>, the byte loop of its ASCII path: two bytes match when they are
  equal or when the smaller one is an upper-case letter and the larger one is that
  letter in lower case; the strings match when they are exhausted together.
\<close>

fun equalFold :: "string \<Rightarrow> string \<Rightarrow> bool" where
  "equalFold [] [] = True"
| "equalFold (sr # s) (tr # t) =
     (if tr = sr then equalFold s t
      else (let lo = min (of_char sr :: nat) (of_char tr); hi = max (of_char sr :: nat) (of_char tr)
            in if 65 \<le> lo \<and> lo \<le> 90 \<and> hi = lo + 32 then equalFold s t else False))"
| "equalFold _ _ = False"





section \<open>Records and the model\<close>

record Project =
  Name :: string
  Path :: string
  Command :: string
  Link :: string
  Category :: string

text \<open>The display category of both \<open>getSortedProjects\<close> and \<open>updateTable\<close>: an empty
  category is shown as \<open>N/A\<close>.\<close>

definition displayCategory :: "Project \<Rightarrow> string" where
  "displayCategory p = (if Category p = [] then ''N/A'' else Category p)"

subsection \<open>\<open>getSortedProjects\<close>\<close>

text \<open>The comparison function handed to \<open>sort.Slice\<close>.\<close>

definition projectLess :: "Project \<Rightarrow> Project \<Rightarrow> bool" where
  "projectLess pi pj =
     (let categoryI = displayCategory pi; categoryJ = displayCategory pj
      in if \<not> equalFold categoryI categoryJ then toLower categoryI < toLower categoryJ
         else toLower (Name pi) < toLower (Name pj))"

text \<open>
  \<open>sort.Slice\<close> is the standard library's; its implementation is no part of the
  program. The library documents that the comparison must be a strict weak ordering,
  that the slice is then sorted by it, and that the sort is not stable. The program is
  therefore modelled over any sorter \<open>srt\<close> that keeps this contract.
\<close>

definition strictWeakOrdering :: "('a \<Rightarrow> 'a \<Rightarrow> bool) \<Rightarrow> bool" where
  "strictWeakOrdering lt =
     ((\<forall>a. \<not> lt a a) \<and>
      (\<forall>a b c. lt a b \<and> lt b c \<longrightarrow> lt a c) \<and>
      (\<forall>a b c. \<not> lt a b \<and> \<not> lt b c \<longrightarrow> \<not> lt a c))"

definition sort_Slice_contract :: "(('a \<Rightarrow> 'a \<Rightarrow> bool) \<Rightarrow> 'a list \<Rightarrow> 'a list) \<Rightarrow> bool" where
  "sort_Slice_contract srt =
     (\<forall>lt xs. strictWeakOrdering lt \<longrightarrow>
        mset (srt lt xs) = mset xs \<and> sorted_wrt (\<lambda>a b. \<not> lt b a) (srt lt xs))"

text \<open>Two sorters that keep the contract, to run the program on concrete catalogs:
  insertion sort, which is stable, and insertion sort of the reversed slice, which is
  not.\<close>

fun insertLess :: "('a \<Rightarrow> 'a \<Rightarrow> bool) \<Rightarrow> 'a \<Rightarrow> 'a list \<Rightarrow> 'a list" where
  "insertLess lt x [] = [x]"
| "insertLess lt x (y # ys) = (if lt y x then y # insertLess lt x ys else x # y # ys)"

fun insertionSort :: "('a \<Rightarrow> 'a \<Rightarrow> bool) \<Rightarrow> 'a list \<Rightarrow> 'a list" where
  "insertionSort lt [] = []"
| "insertionSort lt (x # xs) = insertLess lt x (insertionSort lt xs)"


definition getSortedProjects ::
  "((Project \<Rightarrow> Project \<Rightarrow> bool) \<Rightarrow> Project list \<Rightarrow> Project list) \<Rightarrow> Project list \<Rightarrow> Project list" where
  "getSortedProjects srt projects = srt projectLess projects"


subsection \<open>The model\<close>

text \<open>
  A run-time panic of the program (an index out of range) is the value \<open>Inl\<close> of a
  result. Go's \<open>int\<close> is modelled by \<^typ>\<open>int\<close>: the numbers of the program are
  terminal sizes, column widths and positions in the catalog, far from 64 bits.
\<close>

datatype error = IndexOutOfRange

text \<open>\<open>xs[i]\<close> of a Go slice.\<close>

definition index :: "'a list \<Rightarrow> int \<Rightarrow> error + 'a" where
  "index xs i = (if 0 \<le> i \<and> i < int (length xs) then Inr (xs ! nat i) else Inl IndexOutOfRange)"

record Column =
  Title :: string
  Width :: int

text \<open>
  The two widgets of the terminal library are kept as the values the program writes to
  them and reads from them: the table's columns, rows, cursor and height, and the text
  input's value, cursor and focus. The file of \<open>saveProjects\<close> and the clock of the
  status line are outside the model.
\<close>

record textInput =
  tiValue :: string
  tiCursor :: int
  tiFocus :: bool

record model =
  projects :: "Project list"
  tableColumns :: "Column list"
  tableRows :: "string list list"
  tableCursor :: int
  tableHeight :: int
  editMode :: bool
  editRow :: int
  editCol :: int
  textInput :: textInput
  width :: int
  height :: int
  statusMsg :: string
  scrollOffset :: int
  maxCols :: int
  projectIndices :: "int list"

text \<open>The loop \<open>for i := startCol; i < endCol && i < len(xs); i++ { out = append(out, xs[i]) }\<close>
  of \<open>updateTable\<close> and \<open>adjustLayout\<close>.\<close>

function copyRange :: "'a list \<Rightarrow> int \<Rightarrow> int \<Rightarrow> 'a list \<Rightarrow> error + 'a list" where
  "copyRange xs i endCol out =
     (if i < endCol \<and> i < int (length xs)
      then (if i < 0 then Inl IndexOutOfRange else copyRange xs (i + 1) endCol (out @ [xs ! nat i]))
      else Inr out)"
  by pat_completeness auto
termination
  by (relation "measure (\<lambda>(xs, i, endCol, out). nat (int (length xs) - i))") auto

declare copyRange.simps [simp del]

subsection \<open>\<open>updateTable\<close>\<close>

definition categoryHeader :: "string \<Rightarrow> string" where
  "categoryHeader displayCat = [CHR 0xF0, CHR 0x9F, CHR 0x93, CHR 0x82] @ '' '' @ displayCat"

definition headerRow :: "nat \<Rightarrow> int \<Rightarrow> string \<Rightarrow> string list" where
  "headerRow visibleCols startCol hdr =
     map (\<lambda>i. if startCol + int i = 0 then hdr else []) [0..<visibleCols]"

definition fullRow :: "Project \<Rightarrow> string list" where
  "fullRow project =
     [Name project, Path project, Command project, displayCategory project, Link project]"

text \<open>The body of the loop over the sorted projects; its state is \<open>rows\<close>,
  \<open>m.projectIndices\<close>, \<open>lastCategory\<close> and \<open>projectIndex\<close>.\<close>

type_synonym tableState = "string list list \<times> int list \<times> string \<times> int"

definition updateTable_body :: "nat \<Rightarrow> int \<Rightarrow> tableState \<Rightarrow> Project \<Rightarrow> error + tableState" where
  "updateTable_body visibleCols startCol st project =
     (case st of (rows, indices, lastCategory, projectIndex) \<Rightarrow>
        let displayCat = displayCategory project;
            (rows1, indices1, lastCategory1) =
              (if displayCat \<noteq> lastCategory
               then (rows @ [headerRow visibleCols startCol (categoryHeader displayCat)],
                     indices @ [- 1], displayCat)
               else (rows, indices, lastCategory));
            endCol = (if startCol + int visibleCols > int (length (fullRow project))
                      then int (length (fullRow project)) else startCol + int visibleCols)
        in (case copyRange (fullRow project) startCol endCol [] of
              Inl e \<Rightarrow> Inl e
            | Inr visibleRow \<Rightarrow>
                Inr (rows1 @ [visibleRow], indices1 @ [projectIndex], lastCategory1,
                     projectIndex + 1)))"

fun updateTable_loop :: "nat \<Rightarrow> int \<Rightarrow> Project list \<Rightarrow> tableState \<Rightarrow> error + tableState" where
  "updateTable_loop visibleCols startCol [] st = Inr st"
| "updateTable_loop visibleCols startCol (project # rest) st =
     (case updateTable_body visibleCols startCol st project of
        Inl e \<Rightarrow> Inl e
      | Inr st' \<Rightarrow> updateTable_loop visibleCols startCol rest st')"

definition updateTable ::
  "((Project \<Rightarrow> Project \<Rightarrow> bool) \<Rightarrow> Project list \<Rightarrow> Project list) \<Rightarrow> model \<Rightarrow> error + model" where
  "updateTable srt m =
     (let sortedProjects = getSortedProjects srt (projects m)
      in (case updateTable_loop (length (tableColumns m)) (scrollOffset m) sortedProjects
                 ([], [], [], 0) of
            Inl e \<Rightarrow> Inl e
          | Inr (rows, indices, lastCategory, projectIndex) \<Rightarrow>
              Inr (m\<lparr>tableRows := rows, projectIndices := indices\<rparr>)))"

subsection \<open>\<open>getProjectByDisplayIndex\<close> and \<open>getOriginalIndexByDisplayIndex\<close>\<close>

text \<open>The search \<open>for i := range m.projects\<close> for the first project with the name, path
  and command of the sorted one; \<open>i\<close> counts the projects passed.\<close>

fun findMatch :: "Project list \<Rightarrow> Project \<Rightarrow> int \<Rightarrow> int" where
  "findMatch [] sortedProject i = - 1"
| "findMatch (p # ps) sortedProject i =
     (if Name p = Name sortedProject \<and> Path p = Path sortedProject \<and>
         Command p = Command sortedProject
      then i else findMatch ps sortedProject (i + 1))"

definition getOriginalIndexByDisplayIndex ::
  "((Project \<Rightarrow> Project \<Rightarrow> bool) \<Rightarrow> Project list \<Rightarrow> Project list) \<Rightarrow> model \<Rightarrow> int \<Rightarrow> error + int" where
  "getOriginalIndexByDisplayIndex srt m displayIndex =
     (if displayIndex < 0 \<or> displayIndex \<ge> int (length (projectIndices m)) then Inr (- 1)
      else let projectIndex = projectIndices m ! nat displayIndex
           in if projectIndex = - 1 then Inr (- 1)
              else let sortedProjects = getSortedProjects srt (projects m)
                   in if projectIndex \<ge> int (length sortedProjects) then Inr (- 1)
                      else case index sortedProjects projectIndex of
                             Inl e \<Rightarrow> Inl e
                           | Inr sortedProject \<Rightarrow> Inr (findMatch (projects m) sortedProject 0))"

text \<open>\<open>getProjectByDisplayIndex\<close> returns a pointer into \<open>m.projects\<close> or \<open>nil\<close>: the
  position found, or \<open>None\<close>.\<close>

definition getProjectByDisplayIndex ::
  "((Project \<Rightarrow> Project \<Rightarrow> bool) \<Rightarrow> Project list \<Rightarrow> Project list) \<Rightarrow> model \<Rightarrow> int \<Rightarrow> error + Project option" where
  "getProjectByDisplayIndex srt m displayIndex =
     (if displayIndex < 0 \<or> displayIndex \<ge> int (length (projectIndices m)) then Inr None
      else let projectIndex = projectIndices m ! nat displayIndex
           in if projectIndex = - 1 then Inr None
              else let sortedProjects = getSortedProjects srt (projects m)
                   in if projectIndex \<ge> int (length sortedProjects) then Inr None
                      else case index sortedProjects projectIndex of
                             Inl e \<Rightarrow> Inl e
                           | Inr sortedProject \<Rightarrow>
                               (let i = findMatch (projects m) sortedProject 0
                                in if i = - 1 then Inr None else Inr (Some (projects m ! nat i))))"


subsection \<open>\<open>adjustLayout\<close>\<close>

definition allColumns :: "Column list" where
  "allColumns =
     [\<lparr>Title = ''Name'', Width = 30\<rparr>, \<lparr>Title = ''Path'', Width = 35\<rparr>,
      \<lparr>Title = ''Command'', Width = 35\<rparr>, \<lparr>Title = ''Category'', Width = 15\<rparr>,
      \<lparr>Title = ''Link'', Width = 30\<rparr>]"

text \<open>The loop that counts the columns that fit: it stops at the first column that
  does not fit, and after the last column.\<close>

fun countFitting :: "int \<Rightarrow> Column list \<Rightarrow> int \<Rightarrow> int \<Rightarrow> int" where
  "countFitting availableWidth [] totalWidth visibleCols = visibleCols"
| "countFitting availableWidth (col # cols) totalWidth visibleCols =
     (if totalWidth + Width col \<le> availableWidth
      then countFitting availableWidth cols (totalWidth + Width col) (visibleCols + 1)
      else visibleCols)"

text \<open>The last step: extra width goes to the last visible column.\<close>

definition distributeExtra :: "int \<Rightarrow> Column list \<Rightarrow> Column list" where
  "distributeExtra availableWidth visibleColumns =
     (if length visibleColumns > 0
      then (let usedWidth = sum_list (map Width visibleColumns);
                extraWidth = availableWidth - usedWidth
            in if extraWidth > 0
               then visibleColumns[length visibleColumns - 1 :=
                      (visibleColumns ! (length visibleColumns - 1))
                        \<lparr>Width := Width (visibleColumns ! (length visibleColumns - 1)) + extraWidth\<rparr>]
               else visibleColumns)
      else visibleColumns)"

definition adjustLayout :: "model \<Rightarrow> error + model" where
  "adjustLayout m =
     (let tableHeight0 = (if height m - 6 < 5 then 5 else height m - 6);
          availableWidth = width m - 6;
          visibleCols0 = countFitting availableWidth allColumns 0 0;
          (visibleCols, columns) =
            (if visibleCols0 = 0
             then (1, allColumns[0 := (allColumns ! 0)\<lparr>Width := availableWidth\<rparr>])
             else (visibleCols0, allColumns));
          startCol0 = scrollOffset m;
          endCol0 = startCol0 + visibleCols;
          (startCol, endCol, m1) =
            (if endCol0 > int (length columns)
             then (let endCol1 = int (length columns);
                       startCol1 = (if endCol1 - visibleCols < 0 then 0 else endCol1 - visibleCols)
                   in (startCol1, endCol1, m\<lparr>scrollOffset := startCol1\<rparr>))
             else (startCol0, endCol0, m))
      in (case copyRange columns startCol endCol [] of
            Inl e \<Rightarrow> Inl e
          | Inr visibleColumns \<Rightarrow>
              Inr (m1\<lparr>tableColumns := distributeExtra availableWidth visibleColumns,
                      tableHeight := tableHeight0,
                      maxCols := int (length columns)\<rparr>)))"

subsection \<open>The edit session\<close>

text \<open>The \<open>switch m.editCol\<close> that reads a field, and the one that writes it; neither
  has a default case.\<close>

definition fieldOf :: "Project \<Rightarrow> int \<Rightarrow> string" where
  "fieldOf project col =
     (if col = 0 then Name project
      else if col = 1 then Path project
      else if col = 2 then Command project
      else if col = 3 then Link project
      else if col = 4 then Category project
      else [])"

definition setFieldOf :: "Project \<Rightarrow> int \<Rightarrow> string \<Rightarrow> Project" where
  "setFieldOf project col v =
     (if col = 0 then project\<lparr>Name := v\<rparr>
      else if col = 1 then project\<lparr>Path := v\<rparr>
      else if col = 2 then project\<lparr>Command := v\<rparr>
      else if col = 3 then project\<lparr>Link := v\<rparr>
      else if col = 4 then project\<lparr>Category := v\<rparr>
      else project)"

definition startEdit ::
  "((Project \<Rightarrow> Project \<Rightarrow> bool) \<Rightarrow> Project list \<Rightarrow> Project list) \<Rightarrow> model \<Rightarrow> error + model" where
  "startEdit srt m =
     (if length (projects m) = 0 then Inr m
      else (let m1 = m\<lparr>editMode := True\<rparr>;
                displayIndex = tableCursor m1
            in (case getOriginalIndexByDisplayIndex srt m1 displayIndex of
                  Inl e \<Rightarrow> Inl e
                | Inr row \<Rightarrow>
                    (let m2 = m1\<lparr>editRow := row\<rparr>
                     in (if editRow m2 = - 1 then Inr m2
                         else (let m3 = m2\<lparr>editCol := 0\<rparr>
                               in (case index (projects m3) (editRow m3) of
                                     Inl e \<Rightarrow> Inl e
                                   | Inr project \<Rightarrow>
                                       (let initialValue = fieldOf project (editCol m3)
                                        in Inr (m3\<lparr>textInput :=
                                                  \<lparr>tiValue = initialValue,
                                                   tiCursor = int (length initialValue),
                                                   tiFocus = True\<rparr>\<rparr>)))))))))"

definition saveEdit ::
  "((Project \<Rightarrow> Project \<Rightarrow> bool) \<Rightarrow> Project list \<Rightarrow> Project list) \<Rightarrow> model \<Rightarrow> error + model" where
  "saveEdit srt m =
     (if \<not> editMode m \<or> editRow m < 0 \<or> editRow m \<ge> int (length (projects m)) then Inr m
      else (let v = tiValue (textInput m);
                r = nat (editRow m)
            in updateTable srt
                 (m\<lparr>projects := (projects m)[r := setFieldOf (projects m ! r) (editCol m) v]\<rparr>)))"

definition cancelEdit :: "model \<Rightarrow> model" where
  "cancelEdit m =
     m\<lparr>editMode := False, editRow := - 1, editCol := - 1,
       textInput := (textInput m)\<lparr>tiFocus := False, tiValue := []\<rparr>\<rparr>"

text \<open>Go's \<open>%\<close> truncates towards zero.\<close>

definition goRem :: "int \<Rightarrow> int \<Rightarrow> int" where
  "goRem a b = sgn a * (\<bar>a\<bar> mod \<bar>b\<bar>)"

text \<open>After \<open>tab\<close> and \<open>shift+tab\<close>: the field at the new \<open>editCol\<close> is loaded into the
  text input.\<close>

definition loadField :: "model \<Rightarrow> error + model" where
  "loadField m =
     (case index (projects m) (editRow m) of
        Inl e \<Rightarrow> Inl e
      | Inr project \<Rightarrow>
          (let newValue = fieldOf project (editCol m)
           in Inr (m\<lparr>textInput :=
                     (textInput m)\<lparr>tiValue := newValue, tiCursor := int (length newValue)\<rparr>\<rparr>)))"

text \<open>
  \<open>updateEdit\<close> returns the model and a command; the command is the status message it
  will show, if any. A key that is none of the four is handed to the text input of the
  library, here the parameter \<open>tiUpdate\<close>.
\<close>

definition updateEdit ::
  "((Project \<Rightarrow> Project \<Rightarrow> bool) \<Rightarrow> Project list \<Rightarrow> Project list) \<Rightarrow>
   (string \<Rightarrow> textInput \<Rightarrow> textInput) \<Rightarrow> model \<Rightarrow> string \<Rightarrow> error + (model \<times> string option)" where
  "updateEdit srt tiUpdate m key =
     (if key = ''esc'' then Inr (cancelEdit m, None)
      else if key = ''enter'' then
        (case saveEdit srt m of
           Inl e \<Rightarrow> Inl e
         | Inr m1 \<Rightarrow>
             Inr (cancelEdit m1, Some ([CHR 0xE2, CHR 0x9C, CHR 0x85] @ '' Project updated'')))
      else if key = ''tab'' then
        (case saveEdit srt m of
           Inl e \<Rightarrow> Inl e
         | Inr m1 \<Rightarrow>
             (case loadField (m1\<lparr>editCol := goRem (editCol m1 + 1) 5\<rparr>) of
                Inl e \<Rightarrow> Inl e
              | Inr m2 \<Rightarrow> Inr (m2, None)))
      else if key = ''shift+tab'' then
        (case saveEdit srt m of
           Inl e \<Rightarrow> Inl e
         | Inr m1 \<Rightarrow>
             (case loadField (m1\<lparr>editCol := goRem (editCol m1 - 1 + 5) 5\<rparr>) of
                Inl e \<Rightarrow> Inl e
              | Inr m2 \<Rightarrow> Inr (m2, None)))
      else Inr (m\<lparr>textInput := tiUpdate key (textInput m)\<rparr>, None))"

subsection \<open>Keys and messages of \<open>Update\<close> that change the layout\<close>

text \<open>The \<open>tea.WindowSizeMsg\<close> case of \<open>Update\<close>, and the \<open>left\<close> and \<open>right\<close> cases of
  \<open>updateNormal\<close>.\<close>

definition windowSizeMsg :: "model \<Rightarrow> int \<Rightarrow> int \<Rightarrow> error + model" where
  "windowSizeMsg m w h = adjustLayout (m\<lparr>width := w, height := h\<rparr>)"

definition keyLeft ::
  "((Project \<Rightarrow> Project \<Rightarrow> bool) \<Rightarrow> Project list \<Rightarrow> Project list) \<Rightarrow> model \<Rightarrow> error + model" where
  "keyLeft srt m =
     (if scrollOffset m > 0
      then (case adjustLayout (m\<lparr>scrollOffset := scrollOffset m - 1\<rparr>) of
              Inl e \<Rightarrow> Inl e
            | Inr m1 \<Rightarrow> updateTable srt m1)
      else Inr m)"

definition keyRight ::
  "((Project \<Rightarrow> Project \<Rightarrow> bool) \<Rightarrow> Project list \<Rightarrow> Project list) \<Rightarrow> model \<Rightarrow> error + model" where
  "keyRight srt m =
     (let maxOffset = (if maxCols m - int (length (tableColumns m)) < 0 then 0
                       else maxCols m - int (length (tableColumns m)))
      in if scrollOffset m < maxOffset
         then (case adjustLayout (m\<lparr>scrollOffset := scrollOffset m + 1\<rparr>) of
                 Inl e \<Rightarrow> Inl e
               | Inr m1 \<Rightarrow> updateTable srt m1)
         else Inr m)"

section \<open>The launcher\<close>












section \<open>Notions of the specification\<close>

text \<open>The two-level sort key of the specification: category, then name, both without
  regard to letter case.\<close>

definition sortKey :: "Project \<Rightarrow> string \<times> string" where
  "sortKey p = (toLower (displayCategory p), toLower (Name p))"



text \<open>
  The Display Projection of the specification: the sorted records, with a header before
  each record whose display category differs from that of the record before it.
  \<open>renderRows\<close> writes it as \<open>updateTable\<close> does, a row of visible cells and an
  entry of the index map for each: \<open>-1\<close> for a header, the position in the sorted copy
  for a record.
\<close>

datatype displayRow = Header string | Record Project

fun displayProjection :: "string \<Rightarrow> Project list \<Rightarrow> displayRow list" where
  "displayProjection lastCategory [] = []"
| "displayProjection lastCategory (p # ps) =
     (if displayCategory p \<noteq> lastCategory then [Header (displayCategory p)] else [])
     @ Record p # displayProjection (displayCategory p) ps"

definition visibleRow :: "nat \<Rightarrow> int \<Rightarrow> Project \<Rightarrow> string list" where
  "visibleRow visibleCols startCol p = take visibleCols (drop (nat startCol) (fullRow p))"

fun renderRows :: "nat \<Rightarrow> int \<Rightarrow> int \<Rightarrow> displayRow list \<Rightarrow> (string list \<times> int) list" where
  "renderRows visibleCols startCol k [] = []"
| "renderRows visibleCols startCol k (Header c # rs) =
     (headerRow visibleCols startCol (categoryHeader c), - 1) # renderRows visibleCols startCol k rs"
| "renderRows visibleCols startCol k (Record p # rs) =
     (visibleRow visibleCols startCol p, k) # renderRows visibleCols startCol (k + 1) rs"

definition projectionOf ::
  "((Project \<Rightarrow> Project \<Rightarrow> bool) \<Rightarrow> Project list \<Rightarrow> Project list) \<Rightarrow> model \<Rightarrow> displayRow list" where
  "projectionOf srt m = displayProjection [] (getSortedProjects srt (projects m))"


text \<open>The model that \<open>main\<close> builds before its first \<open>updateTable\<close>.\<close>

definition initialModel :: "Project list \<Rightarrow> model" where
  "initialModel ps =
     \<lparr>projects = ps,
      tableColumns = [\<lparr>Title = ''Name'', Width = 30\<rparr>, \<lparr>Title = ''Path'', Width = 40\<rparr>,
                      \<lparr>Title = ''Command'', Width = 30\<rparr>, \<lparr>Title = ''Category'', Width = 15\<rparr>],
      tableRows = [], tableCursor = 0, tableHeight = 10,
      editMode = False, editRow = - 1, editCol = - 1,
      textInput = \<lparr>tiValue = [], tiCursor = 0, tiFocus = False\<rparr>,
      width = 100, height = 24, statusMsg = [], scrollOffset = 0, maxCols = 5,
      projectIndices = []\<rparr>"

text \<open>The catalog of the scenario, its fields other than name and category empty.\<close>

definition zeta :: Project where
  "zeta = \<lparr>Name = ''Zeta'', Path = [], Command = [], Link = [], Category = ''Web''\<rparr>"

definition alpha :: Project where
  "alpha = \<lparr>Name = ''Alpha'', Path = [], Command = [], Link = [], Category = ''Web''\<rparr>"

definition beta :: Project where
  "beta = \<lparr>Name = ''Beta'', Path = [], Command = [], Link = [], Category = []\<rparr>"





text \<open>The identity of a record for the lookup: name, path and command.\<close>

definition identityOf :: "Project \<Rightarrow> string \<times> string \<times> string" where
  "identityOf p = (Name p, Path p, Command p)"

text \<open>The records of the record rows of a projection, in order.\<close>

fun recordsOf :: "displayRow list \<Rightarrow> Project list" where
  "recordsOf [] = []"
| "recordsOf (Header c # rs) = recordsOf rs"
| "recordsOf (Record p # rs) = p # recordsOf rs"

text \<open>A catalog of two records with one identity and different categories.\<close>

definition twins :: "Project list" where
  "twins =
     [\<lparr>Name = ''api'', Path = ''/srv/api'', Command = ''make run'', Link = [], Category = ''Go''\<rparr>,
      \<lparr>Name = ''api'', Path = ''/srv/api'', Command = ''make run'', Link = [], Category = ''Web''\<rparr>]"

text \<open>The model of the scenario after \<open>updateTable\<close>.\<close>

definition scenarioTable :: model where
  "scenarioTable =
     (initialModel [zeta, alpha, beta])
       \<lparr>tableRows :=
          [[categoryHeader ''N/A'', [], [], []],
           [''Beta'', [], [], ''N/A''],
           [categoryHeader ''Web'', [], [], []],
           [''Alpha'', [], [], ''Web''],
           [''Zeta'', [], [], ''Web'']],
        projectIndices := [- 1, 0, - 1, 1, 2]\<rparr>"








section \<open>Case folding and the comparison\<close>

lemma of_char_toLowerByte:
  "(of_char (toLowerByte c) :: nat) =
     (if 65 \<le> (of_char c :: nat) \<and> (of_char c :: nat) \<le> 90 then of_char c + 32 else of_char c)"
  by (simp add: toLowerByte_def Let_def)

lemma lower_code_eq_iff:
  fixes na nb :: nat
  shows "((if 65 \<le> na \<and> na \<le> 90 then na + 32 else na) =
          (if 65 \<le> nb \<and> nb \<le> 90 then nb + 32 else nb)) \<longleftrightarrow>
         (na = nb \<or> (65 \<le> min na nb \<and> min na nb \<le> 90 \<and> max na nb = min na nb + 32))"
  unfolding min_def max_def by (cases "na \<le> nb") (simp_all split: if_splits, arith+)

lemma toLowerByte_eq_iff:
  "toLowerByte a = toLowerByte b \<longleftrightarrow>
     a = b \<or> (65 \<le> min (of_char a :: nat) (of_char b) \<and> min (of_char a :: nat) (of_char b) \<le> 90 \<and>
             max (of_char a :: nat) (of_char b) = min (of_char a :: nat) (of_char b) + 32)"
proof -
  have "toLowerByte a = toLowerByte b \<longleftrightarrow>
          (of_char (toLowerByte a) :: nat) = of_char (toLowerByte b)"
    by simp
  also have "\<dots> \<longleftrightarrow>
      ((of_char a :: nat) = of_char b \<or>
       (65 \<le> min (of_char a :: nat) (of_char b) \<and> min (of_char a :: nat) (of_char b) \<le> 90 \<and>
        max (of_char a :: nat) (of_char b) = min (of_char a :: nat) (of_char b) + 32))"
    unfolding of_char_toLowerByte by (rule lower_code_eq_iff)
  finally show ?thesis
    by simp
qed

text \<open>The byte loop of \<open>EqualFold\<close> decides equality of the lower-cased strings.\<close>

lemma equalFold_iff: "equalFold s t \<longleftrightarrow> toLower s = toLower t"
proof (induction s t rule: equalFold.induct)
  case (2 sr s tr t)
  then show ?case
    using toLowerByte_eq_iff [of sr tr]
    by (auto simp add: toLower_def Let_def)
qed (simp_all add: toLower_def)

text \<open>The comparison of \<open>getSortedProjects\<close> is the strict order of the sort keys.\<close>

lemma projectLess_sortKey: "projectLess p q \<longleftrightarrow> sortKey p < sortKey q"
  by (auto simp add: projectLess_def sortKey_def Let_def equalFold_iff less_prod_def)

lemma strictWeakOrdering_key: "strictWeakOrdering (\<lambda>a b. (f a :: 'k :: linorder) < f b)"
  unfolding strictWeakOrdering_def by auto

lemma strictWeakOrdering_projectLess: "strictWeakOrdering projectLess"
proof -
  have eq: "projectLess = (\<lambda>p q. sortKey p < sortKey q)"
    by (intro ext) (rule projectLess_sortKey)
  show ?thesis
    unfolding eq by (rule strictWeakOrdering_key)
qed


section \<open>The sorters\<close>

lemma mset_insertLess: "mset (insertLess lt x ys) = add_mset x (mset ys)"
  by (induction ys) auto

lemma mset_insertionSort: "mset (insertionSort lt xs) = mset xs"
  by (induction xs) (auto simp add: mset_insertLess)

lemma set_insertLess: "set (insertLess lt x ys) = insert x (set ys)"
  using mset_insertLess [of lt x ys] by (metis set_mset_add_mset_insert set_mset_mset)

lemma sorted_insertLess:
  assumes "strictWeakOrdering lt" and "sorted_wrt (\<lambda>a b. \<not> lt b a) ys"
  shows "sorted_wrt (\<lambda>a b. \<not> lt b a) (insertLess lt x ys)"
  using assms(2)
proof (induction ys)
  case Nil
  show ?case by simp
next
  case (Cons y ys)
  have asym: "\<And>a b. lt a b \<Longrightarrow> \<not> lt b a"
    using assms(1) unfolding strictWeakOrdering_def by blast
  have ntrans: "\<And>a b c. \<not> lt a b \<Longrightarrow> \<not> lt b c \<Longrightarrow> \<not> lt a c"
    using assms(1) unfolding strictWeakOrdering_def by blast
  show ?case
  proof (cases "lt y x")
    case True
    with Cons asym show ?thesis
      by (auto simp add: set_insertLess)
  next
    case False
    with Cons.prems ntrans show ?thesis
      by auto
  qed
qed

lemma sorted_insertionSort:
  "strictWeakOrdering lt \<Longrightarrow> sorted_wrt (\<lambda>a b. \<not> lt b a) (insertionSort lt xs)"
  by (induction xs) (auto intro: sorted_insertLess)

lemma insertionSort_contract: "sort_Slice_contract insertionSort"
  unfolding sort_Slice_contract_def
  by (simp add: mset_insertionSort sorted_insertionSort)


text \<open>Where the comparison decides every pair of different elements, the contract leaves
  one result only.\<close>

lemma sorted_permutation_unique:
  assumes "sorted_wrt (\<lambda>a b. \<not> lt b a) ys" and "sorted_wrt (\<lambda>a b. \<not> lt b a) zs"
    and "mset ys = mset zs"
    and "\<And>a b. a \<in> set ys \<Longrightarrow> b \<in> set ys \<Longrightarrow> a \<noteq> b \<Longrightarrow> lt a b \<or> lt b a"
  shows "ys = zs"
  using assms
proof (induction ys arbitrary: zs)
  case Nil
  then show ?case by simp
next
  case (Cons y ys)
  from Cons.prems(3) obtain z zs' where zs: "zs = z # zs'"
    by (cases zs) auto
  have sets: "set (y # ys) = set (z # zs')"
    using Cons.prems(3) zs by (metis mset_eq_setD)
  have "y = z"
  proof (rule ccontr)
    assume ne: "y \<noteq> z"
    with sets have "z \<in> set ys" and "y \<in> set zs'" by auto
    then have "\<not> lt z y" and "\<not> lt y z"
      using Cons.prems(1,2) zs by auto
    moreover have "lt y z \<or> lt z y"
      using Cons.prems(4) [of y z] ne \<open>z \<in> set ys\<close> by auto
    ultimately show False by blast
  qed
  moreover have "ys = zs'"
  proof (rule Cons.IH)
    show "sorted_wrt (\<lambda>a b. \<not> lt b a) ys" using Cons.prems(1) by simp
    show "sorted_wrt (\<lambda>a b. \<not> lt b a) zs'" using Cons.prems(2) zs by simp
    show "mset ys = mset zs'" using Cons.prems(3) zs \<open>y = z\<close> by simp
    show "\<And>a b. a \<in> set ys \<Longrightarrow> b \<in> set ys \<Longrightarrow> a \<noteq> b \<Longrightarrow> lt a b \<or> lt b a"
      using Cons.prems(4) by simp
  qed
  ultimately show ?case using zs by simp
qed

lemma getSortedProjects_mset:
  "sort_Slice_contract srt \<Longrightarrow> mset (getSortedProjects srt ps) = mset ps"
  unfolding sort_Slice_contract_def getSortedProjects_def
  using strictWeakOrdering_projectLess by blast

lemma getSortedProjects_sorted_wrt:
  "sort_Slice_contract srt \<Longrightarrow>
   sorted_wrt (\<lambda>a b. \<not> projectLess b a) (getSortedProjects srt ps)"
  unfolding sort_Slice_contract_def getSortedProjects_def
  using strictWeakOrdering_projectLess by blast

section \<open>\<open>updateTable\<close> writes the Display Projection\<close>

lemma copyRange_from:
  "0 \<le> i \<Longrightarrow> copyRange xs i endCol out = Inr (out @ take (nat (endCol - i)) (drop (nat i) xs))"
proof (induction xs i endCol out rule: copyRange.induct)
  case (1 xs i endCol out)
  show ?case
  proof (cases "i < endCol \<and> i < int (length xs)")
    case True
    from True "1.prems" have lt: "nat i < length xs"
      by arith
    from True have d: "nat (endCol - i) = Suc (nat (endCol - (i + 1)))"
      by arith
    from "1.prems" have n: "nat (i + 1) = Suc (nat i)"
      by arith
    have "copyRange xs i endCol out = copyRange xs (i + 1) endCol (out @ [xs ! nat i])"
      using True "1.prems" copyRange.simps [of xs i endCol out] by simp
    also have "\<dots> = Inr ((out @ [xs ! nat i]) @ take (nat (endCol - (i + 1))) (drop (nat (i + 1)) xs))"
      using "1.IH" True "1.prems" by simp
    also have "(out @ [xs ! nat i]) @ take (nat (endCol - (i + 1))) (drop (nat (i + 1)) xs) =
               out @ take (nat (endCol - i)) (drop (nat i) xs)"
      unfolding d n using Cons_nth_drop_Suc [OF lt, symmetric] by simp
    finally show ?thesis .
  next
    case False
    have "copyRange xs i endCol out = Inr out"
      by (subst copyRange.simps) (simp only: False if_False)
    moreover from False "1.prems" have "take (nat (endCol - i)) (drop (nat i) xs) = []"
      by auto
    ultimately show ?thesis by simp
  qed
qed

lemma visibleRow_eq:
  assumes "0 \<le> startCol"
  shows "copyRange (fullRow p) startCol
           (if startCol + int n > int (length (fullRow p)) then int (length (fullRow p))
            else startCol + int n) [] = Inr (visibleRow n startCol p)"
proof -
  have len: "length (fullRow p) = 5" by (simp add: fullRow_def)
  show ?thesis
  proof (cases "startCol + int n > int (length (fullRow p))")
    case True
    then have "length (drop (nat startCol) (fullRow p)) \<le> n"
      using assms by (simp add: len)
    moreover have "length (drop (nat startCol) (fullRow p)) \<le> nat (int (length (fullRow p)) - startCol)"
      using assms by (simp add: len)
    ultimately show ?thesis
      using True assms by (simp add: copyRange_from visibleRow_def)
  next
    case False
    then show ?thesis
      using assms by (simp add: copyRange_from visibleRow_def)
  qed
qed

lemma updateTable_body_eq:
  assumes "0 \<le> startCol"
  shows "updateTable_body n startCol (rows, indices, lastCategory, k) p =
         Inr (rows @ map fst (renderRows n startCol k
                 ((if displayCategory p \<noteq> lastCategory then [Header (displayCategory p)] else []) @ [Record p])),
              indices @ map snd (renderRows n startCol k
                 ((if displayCategory p \<noteq> lastCategory then [Header (displayCategory p)] else []) @ [Record p])),
              displayCategory p, k + 1)"
  unfolding updateTable_body_def using visibleRow_eq [OF assms, of p n]
  by (simp add: Let_def)

lemma renderRows_append:
  "renderRows n so k (rs @ rs') =
     renderRows n so k rs @ renderRows n so (k + int (length (filter (\<lambda>r. case r of Record _ \<Rightarrow> True | _ \<Rightarrow> False) rs))) rs'"
  by (induction n so k rs rule: renderRows.induct) (simp_all add: add.assoc)

lemma updateTable_loop_eq:
  assumes "0 \<le> startCol"
  shows "updateTable_loop n startCol ps (rows, indices, lastCategory, k) =
         Inr (rows @ map fst (renderRows n startCol k (displayProjection lastCategory ps)),
              indices @ map snd (renderRows n startCol k (displayProjection lastCategory ps)),
              (if ps = [] then lastCategory else displayCategory (last ps)), k + int (length ps))"
proof (induction ps arbitrary: rows indices lastCategory k)
  case Nil
  show ?case by simp
next
  case (Cons p ps)
  show ?case
    by (simp add: updateTable_body_eq [OF assms] Cons.IH renderRows_append)
qed

lemma updateTable_eq:
  assumes "0 \<le> scrollOffset m"
  shows "updateTable srt m =
         Inr (m\<lparr>tableRows := map fst (renderRows (length (tableColumns m)) (scrollOffset m) 0 (projectionOf srt m)),
                projectIndices := map snd (renderRows (length (tableColumns m)) (scrollOffset m) 0 (projectionOf srt m))\<rparr>)"
  unfolding updateTable_def projectionOf_def
  by (simp add: Let_def updateTable_loop_eq [OF assms])


section \<open>The sort of the projection\<close>




section \<open>The scenario of the three records\<close>

lemma scenario_keys:
  assumes "Name z = ''Zeta''" "Category z = ''Web''" "Name a = ''Alpha''" "Category a = ''Web''"
    "Name b = ''Beta''" "Category b = []"
  shows "sortKey z = (''web'', ''zeta'')" "sortKey a = (''web'', ''alpha'')" "sortKey b = (''n/a'', ''beta'')"
proof -
  have "toLower ''Web'' = ''web''" "toLower ''N/A'' = ''n/a''" "toLower ''Zeta'' = ''zeta''"
    "toLower ''Alpha'' = ''alpha''" "toLower ''Beta'' = ''beta''"
    by code_simp+
  then show "sortKey z = (''web'', ''zeta'')" "sortKey a = (''web'', ''alpha'')" "sortKey b = (''n/a'', ''beta'')"
    using assms by (simp_all add: sortKey_def displayCategory_def)
qed

lemma scenario_sorted:
  assumes "sort_Slice_contract srt"
    and "Name z = ''Zeta''" "Category z = ''Web''" "Name a = ''Alpha''" "Category a = ''Web''"
    "Name b = ''Beta''" "Category b = []"
  shows "getSortedProjects srt [z, a, b] = [b, a, z]"
proof -
  note keys = scenario_keys [OF assms(2-7)]
  have lt: "projectLess b a" "projectLess a z" "projectLess b z"
    "\<not> projectLess a b" "\<not> projectLess z a" "\<not> projectLess z b"
    by (simp_all add: projectLess_sortKey keys less_prod_def)
  have "[b, a, z] = getSortedProjects srt [z, a, b]"
  proof (rule sorted_permutation_unique [where lt = projectLess])
    show "sorted_wrt (\<lambda>a b. \<not> projectLess b a) [b, a, z]"
      using lt by simp
    show "sorted_wrt (\<lambda>a b. \<not> projectLess b a) (getSortedProjects srt [z, a, b])"
      by (rule getSortedProjects_sorted_wrt [OF assms(1)])
    show "mset [b, a, z] = mset (getSortedProjects srt [z, a, b])"
      by (simp add: getSortedProjects_mset [OF assms(1)])
    show "\<And>x y. x \<in> set [b, a, z] \<Longrightarrow> y \<in> set [b, a, z] \<Longrightarrow> x \<noteq> y \<Longrightarrow> projectLess x y \<or> projectLess y x"
      using lt by auto
  qed
  then show ?thesis by simp
qed

text \<open>
  C4 (as amended). For the Catalog of Zeta (category Web), Alpha (category Web) and Beta
  (no category), whatever their other fields, the rebuilt Display Projection is the row
  sequence header N/A, Beta, header Web, Alpha, Zeta: the lower-cased \<open>n/a\<close> sorts
  before \<open>web\<close>. \<open>updateTable\<close> writes these five rows, and the index map
  \<open>-1, 0, -1, 1, 2\<close>.
\<close>

theorem scenario_projection:
  assumes "sort_Slice_contract srt" and "0 \<le> scrollOffset m"
    and "projects m = [z, a, b]"
    and "Name z = ''Zeta''" "Category z = ''Web''" "Name a = ''Alpha''" "Category a = ''Web''"
    "Name b = ''Beta''" "Category b = []"
  shows "projectionOf srt m = [Header ''N/A'', Record b, Header ''Web'', Record a, Record z] \<and>
         updateTable srt m =
           Inr (m\<lparr>tableRows :=
                   [headerRow (length (tableColumns m)) (scrollOffset m) (categoryHeader ''N/A''),
                    visibleRow (length (tableColumns m)) (scrollOffset m) b,
                    headerRow (length (tableColumns m)) (scrollOffset m) (categoryHeader ''Web''),
                    visibleRow (length (tableColumns m)) (scrollOffset m) a,
                    visibleRow (length (tableColumns m)) (scrollOffset m) z],
                  projectIndices := [- 1, 0, - 1, 1, 2]\<rparr>)"
proof -
  have srt: "getSortedProjects srt (projects m) = [b, a, z]"
    using scenario_sorted [OF assms(1) assms(4-9)] assms(3) by simp
  have proj: "projectionOf srt m = [Header ''N/A'', Record b, Header ''Web'', Record a, Record z]"
    unfolding projectionOf_def srt using assms(4-9) by (simp add: displayCategory_def)
  show ?thesis
    using updateTable_eq [OF assms(2), of srt] by (simp add: proj)
qed

theorem scenario_projection_witness:
  "sort_Slice_contract (insertionSort :: (Project \<Rightarrow> Project \<Rightarrow> bool) \<Rightarrow> Project list \<Rightarrow> Project list) \<and>
   0 \<le> scrollOffset (initialModel [zeta, alpha, beta]) \<and>
   projectionOf insertionSort (initialModel [zeta, alpha, beta]) =
     [Header ''N/A'', Record beta, Header ''Web'', Record alpha, Record zeta] \<and>
   updateTable insertionSort (initialModel [zeta, alpha, beta]) =
     Inr ((initialModel [zeta, alpha, beta])
            \<lparr>tableRows :=
               [[categoryHeader ''N/A'', [], [], []],
                [''Beta'', [], [], ''N/A''],
                [categoryHeader ''Web'', [], [], []],
                [''Alpha'', [], [], ''Web''],
                [''Zeta'', [], [], ''Web'']],
             projectIndices := [- 1, 0, - 1, 1, 2]\<rparr>)"
proof -
  define m where "m = initialModel [zeta, alpha, beta]"
  have m: "0 \<le> scrollOffset m" "projects m = [zeta, alpha, beta]"
    and shape: "length (tableColumns m) = 4" "scrollOffset m = 0"
    by (simp_all add: m_def initialModel_def)
  have fields: "Name zeta = ''Zeta''" "Category zeta = ''Web''" "Name alpha = ''Alpha''"
    "Category alpha = ''Web''" "Name beta = ''Beta''" "Category beta = []"
    by (simp_all add: zeta_def alpha_def beta_def)
  have hdr: "headerRow 4 0 c = [c, [], [], []]" for c
    by (simp add: headerRow_def upt_conv_Cons)
  have rows: "visibleRow 4 0 beta = [''Beta'', [], [], ''N/A'']"
    "visibleRow 4 0 alpha = [''Alpha'', [], [], ''Web'']"
    "visibleRow 4 0 zeta = [''Zeta'', [], [], ''Web'']"
    by (simp_all add: visibleRow_def fullRow_def displayCategory_def zeta_def alpha_def beta_def)
  show ?thesis
    unfolding m_def [symmetric]
    using scenario_projection [OF insertionSort_contract m fields] insertionSort_contract m(1)
    by (simp add: shape hdr rows)
qed

text \<open>
  C4 as stated fails: on the model that \<open>main\<close> builds for this catalog the rows are
  not header Web, Alpha, Zeta, header N/A, Beta; their first cells are those of header
  N/A, Beta, header Web, Alpha, Zeta.
\<close>

theorem scenario_projection_as_claimed_fails:
  "updateTable insertionSort (initialModel [zeta, alpha, beta]) \<noteq>
     Inr ((initialModel [zeta, alpha, beta])
            \<lparr>tableRows :=
               [[categoryHeader ''Web'', [], [], []],
                [''Alpha'', [], [], ''Web''],
                [''Zeta'', [], [], ''Web''],
                [categoryHeader ''N/A'', [], [], []],
                [''Beta'', [], [], ''N/A'']],
             projectIndices := [- 1, 0, 1, - 1, 2]\<rparr>) \<and>
   (case updateTable insertionSort (initialModel [zeta, alpha, beta]) of
      Inl e \<Rightarrow> [] | Inr m' \<Rightarrow> map hd (tableRows m')) =
     [categoryHeader ''N/A'', ''Beta'', categoryHeader ''Web'', ''Alpha'', ''Zeta'']"
  by code_simp

section \<open>Headers and categories\<close>











section \<open>From display rows back to the Catalog\<close>

lemma recordsOf_append: "recordsOf (rs @ rs') = recordsOf rs @ recordsOf rs'"
  by (induction rs rule: recordsOf.induct) simp_all

lemma recordsOf_displayProjection: "recordsOf (displayProjection lastCategory ps) = ps"
  by (induction ps arbitrary: lastCategory) simp_all

lemma length_renderRows: "length (renderRows n so k rs) = length rs"
  by (induction n so k rs rule: renderRows.induct) simp_all

lemma renderRows_nth:
  "d < length rs \<Longrightarrow>
   renderRows n so k rs ! d =
     (case rs ! d of
        Header c \<Rightarrow> (headerRow n so (categoryHeader c), - 1)
      | Record p \<Rightarrow> (visibleRow n so p, k + int (length (recordsOf (take d rs)))))"
proof (induction n so k rs arbitrary: d rule: renderRows.induct)
  case (1 n so k)
  then show ?case by simp
next
  case (2 n so k c rs)
  then show ?case by (cases d) (simp_all split: displayRow.split)
next
  case (3 n so k p rs)
  then show ?case by (cases d) (simp_all add: add.assoc split: displayRow.split)
qed

lemma recordsOf_nth:
  assumes "d < length rs" and "rs ! d = Record p"
  shows "length (recordsOf (take d rs)) < length (recordsOf rs) \<and>
         recordsOf rs ! length (recordsOf (take d rs)) = p"
proof -
  have "rs = take d rs @ Record p # drop (Suc d) rs"
    using assms by (metis id_take_nth_drop)
  then have "recordsOf rs = recordsOf (take d rs) @ p # recordsOf (drop (Suc d) rs)"
    by (metis recordsOf_append recordsOf.simps(3))
  then show ?thesis
    by (simp add: nth_append)
qed

lemma recordsOf_take_less:
  assumes "d < d'" and "d' \<le> length rs" and "rs ! d = Record p"
  shows "length (recordsOf (take d rs)) < length (recordsOf (take d' rs))"
proof -
  have "d < length (take d' rs)" "take d' rs ! d = Record p" "take d (take d' rs) = take d rs"
    using assms by (simp_all add: min_def)
  then show ?thesis
    using recordsOf_nth [of d "take d' rs" p] by simp
qed

lemma findMatch_found:
  assumes "sp \<in> set ps"
  shows "\<exists>i < length ps. findMatch ps sp k = k + int i \<and>
           identityOf (ps ! i) = identityOf sp \<and>
           (\<forall>i' < i. identityOf (ps ! i') \<noteq> identityOf sp)"
  using assms
proof (induction ps arbitrary: k)
  case Nil
  then show ?case by simp
next
  case (Cons p ps)
  show ?case
  proof (cases "identityOf p = identityOf sp")
    case True
    then have "findMatch (p # ps) sp k = k + int 0"
      by (simp add: identityOf_def)
    with True show ?thesis
      by (intro exI [of _ 0]) simp
  next
    case False
    with Cons.prems have "sp \<in> set ps" by auto
    from Cons.IH [OF this, of "k + 1"] obtain i where i: "i < length ps"
      "findMatch ps sp (k + 1) = k + 1 + int i" "identityOf (ps ! i) = identityOf sp"
      "\<forall>i' < i. identityOf (ps ! i') \<noteq> identityOf sp"
      by blast
    have "findMatch (p # ps) sp k = k + int (Suc i)"
      using False i(2) by (simp add: identityOf_def)
    moreover have "\<forall>i' < Suc i. identityOf ((p # ps) ! i') \<noteq> identityOf sp"
      using False i(4) by (auto simp add: nth_Cons split: nat.split)
    ultimately show ?thesis
      using i(1,3) by (intro exI [of _ "Suc i"]) simp
  qed
qed


lemma display_row_lookup:
  assumes c: "sort_Slice_contract srt" and so: "0 \<le> scrollOffset m"
    and up: "updateTable srt m = Inr m'"
    and d: "d < length (projectIndices m')" and nh: "projectIndices m' ! d \<noteq> - 1"
  shows "\<exists>i p. d < length (projectionOf srt m) \<and> projectionOf srt m ! d = Record p \<and>
           projectIndices m' ! d = int (length (recordsOf (take d (projectionOf srt m)))) \<and>
           length (recordsOf (take d (projectionOf srt m))) < length (projects m) \<and>
           getSortedProjects srt (projects m) ! length (recordsOf (take d (projectionOf srt m))) = p \<and>
           tableRows m' ! d = visibleRow (length (tableColumns m)) (scrollOffset m) p \<and>
           getOriginalIndexByDisplayIndex srt m' (int d) = Inr (int i) \<and>
           i < length (projects m) \<and> identityOf (projects m ! i) = identityOf p \<and>
           (\<forall>i' < i. identityOf (projects m ! i') \<noteq> identityOf p)"
proof -
  let ?P = "projectionOf srt m"
  let ?R = "renderRows (length (tableColumns m)) (scrollOffset m) 0 ?P"
  let ?ss = "getSortedProjects srt (projects m)"
  let ?j = "length (recordsOf (take d ?P))"
  have m': "m' = m\<lparr>tableRows := map fst ?R, projectIndices := map snd ?R\<rparr>"
    using updateTable_eq [OF so, of srt] up by simp
  then have same: "projects m' = projects m" and idx: "projectIndices m' = map snd ?R"
    and rows: "tableRows m' = map fst ?R"
    by simp_all
  have dP: "d < length ?P"
    using d idx by (simp add: length_renderRows)
  have Rd: "?R ! d = (case ?P ! d of
        Header c \<Rightarrow> (headerRow (length (tableColumns m)) (scrollOffset m) (categoryHeader c), - 1)
      | Record p \<Rightarrow> (visibleRow (length (tableColumns m)) (scrollOffset m) p, 0 + int ?j))"
    by (rule renderRows_nth [OF dP])
  obtain p where p: "?P ! d = Record p"
    using nh idx dP Rd by (cases "?P ! d") (simp_all add: length_renderRows)
  have snd_d: "projectIndices m' ! d = int ?j"
    and fst_d: "tableRows m' ! d = visibleRow (length (tableColumns m)) (scrollOffset m) p"
    using idx rows dP Rd p by (simp_all add: length_renderRows)
  have recs: "recordsOf ?P = ?ss"
    by (simp add: projectionOf_def recordsOf_displayProjection)
  have len: "length ?ss = length (projects m)"
    using getSortedProjects_mset [OF c, of "projects m"] by (metis size_mset)
  have j: "?j < length ?ss" "?ss ! ?j = p"
    using recordsOf_nth [OF dP p] recs by simp_all
  have "p \<in> set ?ss"
    using j by (metis nth_mem)
  then have "p \<in> set (projects m)"
    using getSortedProjects_mset [OF c, of "projects m"] by (metis mset_eq_setD)
  from findMatch_found [OF this, of 0] obtain i where i: "i < length (projects m)"
    "findMatch (projects m) p 0 = int i" "identityOf (projects m ! i) = identityOf p"
    "\<forall>i' < i. identityOf (projects m ! i') \<noteq> identityOf p"
    by auto
  have "getOriginalIndexByDisplayIndex srt m' (int d) = Inr (int i)"
    using d snd_d j i(2) same
    by (simp add: getOriginalIndexByDisplayIndex_def Let_def index_def)
  then show ?thesis
    using dP p snd_d j len fst_d i by auto
qed

text \<open>
  C1 (as amended). For every Catalog and every non-header display row of the rebuilt
  projection, \<open>getOriginalIndexByDisplayIndex\<close> returns a valid Catalog index: that of
  the first Catalog record with the name, path and command of the sorted record shown at
  that display row. Where no two Catalog records have the same name, path and command,
  the record at the returned index is the record shown at that row, and no other
  non-header display row gets the same index.
\<close>

theorem getOriginalIndexByDisplayIndex_record:
  assumes c: "sort_Slice_contract srt" and so: "0 \<le> scrollOffset m"
    and up: "updateTable srt m = Inr m'"
    and d: "d < length (projectIndices m')" and nh: "projectIndices m' ! d \<noteq> - 1"
  shows "\<exists>i j. getOriginalIndexByDisplayIndex srt m' (int d) = Inr (int i) \<and>
           i < length (projects m') \<and>
           projectIndices m' ! d = int j \<and> j < length (projects m') \<and>
           tableRows m' ! d =
             visibleRow (length (tableColumns m')) (scrollOffset m')
               (getSortedProjects srt (projects m') ! j) \<and>
           identityOf (projects m' ! i) = identityOf (getSortedProjects srt (projects m') ! j) \<and>
           (\<forall>i' < i. identityOf (projects m' ! i') \<noteq> identityOf (getSortedProjects srt (projects m') ! j)) \<and>
           (distinct (map identityOf (projects m')) \<longrightarrow>
              projects m' ! i = getSortedProjects srt (projects m') ! j \<and>
              (\<forall>d' < length (projectIndices m').
                 d' \<noteq> d \<and> projectIndices m' ! d' \<noteq> - 1 \<longrightarrow>
                 getOriginalIndexByDisplayIndex srt m' (int d') \<noteq> Inr (int i)))"
proof -
  let ?P = "projectionOf srt m"
  let ?ss = "getSortedProjects srt (projects m)"
  have m': "m' = m\<lparr>tableRows := map fst (renderRows (length (tableColumns m)) (scrollOffset m) 0 ?P),
                  projectIndices := map snd (renderRows (length (tableColumns m)) (scrollOffset m) 0 ?P)\<rparr>"
    using updateTable_eq [OF so, of srt] up by simp
  then have same: "projects m' = projects m" "tableColumns m' = tableColumns m"
    "scrollOffset m' = scrollOffset m"
    by simp_all
  from display_row_lookup [OF c so up d nh] obtain i p where
    dP: "d < length ?P" and p: "?P ! d = Record p"
    and j: "projectIndices m' ! d = int (length (recordsOf (take d ?P)))"
    "length (recordsOf (take d ?P)) < length (projects m)"
    "?ss ! length (recordsOf (take d ?P)) = p"
    and row: "tableRows m' ! d = visibleRow (length (tableColumns m)) (scrollOffset m) p"
    and i: "getOriginalIndexByDisplayIndex srt m' (int d) = Inr (int i)" "i < length (projects m)"
    "identityOf (projects m ! i) = identityOf p"
    "\<forall>i' < i. identityOf (projects m ! i') \<noteq> identityOf p"
    by blast
  have msets: "mset ?ss = mset (projects m)"
    by (rule getSortedProjects_mset [OF c])
  have unique: "projects m ! i = p \<and>
      (\<forall>d' < length (projectIndices m').
         d' \<noteq> d \<and> projectIndices m' ! d' \<noteq> - 1 \<longrightarrow>
         getOriginalIndexByDisplayIndex srt m' (int d') \<noteq> Inr (int i))"
    if dist: "distinct (map identityOf (projects m))"
  proof -
    have inj: "x = y" if "x \<in> set (projects m)" "y \<in> set (projects m)" "identityOf x = identityOf y" for x y
      using dist that by (meson distinct_map inj_onD)
    have dps: "distinct (projects m)"
      using dist by (simp add: distinct_map)
    then have dss: "distinct ?ss"
      using msets by (metis mset_eq_imp_distinct_iff)
    have len: "length ?ss = length (projects m)"
      using msets by (metis size_mset)
    have p_in: "p \<in> set (projects m)"
      using j len msets by (metis mset_eq_setD nth_mem)
    have eq: "projects m ! i = p"
      using inj [of "projects m ! i" p] i(2,3) p_in by simp
    have "getOriginalIndexByDisplayIndex srt m' (int d') \<noteq> Inr (int i)"
      if d': "d' < length (projectIndices m')" and ne: "d' \<noteq> d"
        and nh': "projectIndices m' ! d' \<noteq> - 1" for d'
    proof
      assume same_result: "getOriginalIndexByDisplayIndex srt m' (int d') = Inr (int i)"
      from display_row_lookup [OF c so up d' nh'] obtain i2 p2 where
        dP': "d' < length ?P" and p2: "?P ! d' = Record p2"
        and j2: "length (recordsOf (take d' ?P)) < length (projects m)"
        "?ss ! length (recordsOf (take d' ?P)) = p2"
        and i2: "getOriginalIndexByDisplayIndex srt m' (int d') = Inr (int i2)"
        "i2 < length (projects m)" "identityOf (projects m ! i2) = identityOf p2"
        by blast
      have "i2 = i"
        using same_result i2(1) by simp
      have "p2 \<in> set (projects m)"
        using j2 len msets by (metis mset_eq_setD nth_mem)
      then have "projects m ! i2 = p2"
        using inj [of "projects m ! i2" p2] i2(2,3) by simp
      with eq \<open>i2 = i\<close> have "p2 = p" by simp
      then have "length (recordsOf (take d' ?P)) = length (recordsOf (take d ?P))"
        using j(2,3) j2 len nth_eq_iff_index_eq [OF dss] by metis
      moreover have "length (recordsOf (take d ?P)) < length (recordsOf (take d' ?P))" if "d < d'"
        using recordsOf_take_less [OF that _ p] dP' by simp
      moreover have "length (recordsOf (take d' ?P)) < length (recordsOf (take d ?P))" if "d' < d"
        using recordsOf_take_less [OF that _ p2] dP by simp
      ultimately show False
        using ne by (cases "d < d'") auto
    qed
    with eq show ?thesis by blast
  qed
  show ?thesis
    unfolding same
    using i j row unique by (intro exI [of _ i] exI [of _ "length (recordsOf (take d ?P))"]) simp
qed


theorem getOriginalIndexByDisplayIndex_record_witness:
  "sort_Slice_contract (insertionSort :: (Project \<Rightarrow> Project \<Rightarrow> bool) \<Rightarrow> Project list \<Rightarrow> Project list) \<and>
   0 \<le> scrollOffset (initialModel [zeta, alpha, beta]) \<and>
   updateTable insertionSort (initialModel [zeta, alpha, beta]) = Inr scenarioTable \<and>
   (1::nat) < length (projectIndices scenarioTable) \<and>
   projectIndices scenarioTable ! 1 \<noteq> - 1 \<and>
   distinct (map identityOf (projects scenarioTable)) \<and>
   (\<exists>i j. getOriginalIndexByDisplayIndex insertionSort scenarioTable (int 1) = Inr (int i) \<and>
          i < length (projects scenarioTable) \<and> projectIndices scenarioTable ! 1 = int j \<and>
          projects scenarioTable ! i = getSortedProjects insertionSort (projects scenarioTable) ! j) \<and>
   getOriginalIndexByDisplayIndex insertionSort scenarioTable 1 = Inr 2 \<and>
   projects scenarioTable ! 2 = beta"
proof -
  have so: "0 \<le> scrollOffset (initialModel [zeta, alpha, beta])"
    by (simp add: initialModel_def)
  have up: "updateTable insertionSort (initialModel [zeta, alpha, beta]) = Inr scenarioTable"
    by code_simp
  have d: "(1::nat) < length (projectIndices scenarioTable)"
    and nh: "projectIndices scenarioTable ! 1 \<noteq> - 1"
    by (simp_all add: scenarioTable_def)
  have dist: "distinct (map identityOf (projects scenarioTable))"
    by (simp add: scenarioTable_def initialModel_def identityOf_def zeta_def alpha_def beta_def)
  have res: "getOriginalIndexByDisplayIndex insertionSort scenarioTable 1 = Inr 2"
    "projects scenarioTable ! 2 = beta"
    by code_simp+
  from getOriginalIndexByDisplayIndex_record [OF insertionSort_contract so up d nh] dist
  have "\<exists>i j. getOriginalIndexByDisplayIndex insertionSort scenarioTable (int 1) = Inr (int i) \<and>
          i < length (projects scenarioTable) \<and> projectIndices scenarioTable ! 1 = int j \<and>
          projects scenarioTable ! i = getSortedProjects insertionSort (projects scenarioTable) ! j"
    by blast
  then show ?thesis
    using insertionSort_contract so up d nh dist res by blast
qed

text \<open>
  C1 as stated fails: for two records with the same name, path and command in the
  categories Go and Web, the display rows 1 and 3 are record rows, both get the Catalog
  index 0, and row 3 shows the category Web where the record at index 0 has Go.
\<close>

theorem getOriginalIndexByDisplayIndex_twins:
  "(case updateTable insertionSort (initialModel twins) of
      Inl e \<Rightarrow> ([], Inl e, Inl e, [], [])
    | Inr m' \<Rightarrow>
        (projectIndices m',
         getOriginalIndexByDisplayIndex insertionSort m' 1,
         getOriginalIndexByDisplayIndex insertionSort m' 3,
         tableRows m' ! 3,
         fullRow (projects m' ! 0))) =
     ([- 1, 0, - 1, 1], Inr 0, Inr 0,
      [''api'', ''/srv/api'', ''make run'', ''Web''],
      [''api'', ''/srv/api'', ''make run'', ''Go'', []])"
  by code_simp


section \<open>The launcher\<close>






















end
